theory Spec2Isabelle
  imports Main
begin

section \<open>Python string operations used by the featurizer\<close>

text \<open>
  The model covers ASCII text: a string is a list of characters below U+0080, and on such
  strings the operations below are those of Python's \<open>str\<close>. Text with other characters is
  outside the model: Python counts some of them as white space (U+0085, U+00A0) or as line
  boundaries and maps their case, which the definitions below do not.
\<close>

definition is_space :: "char \<Rightarrow> bool" where
  "is_space c = (c = CHR '' '' \<or> c = CHR 0x09 \<or> c = CHR 0x0A \<or> c = CHR 0x0B \<or> c = CHR 0x0C
     \<or> c = CHR 0x0D \<or> c = CHR 0x1C \<or> c = CHR 0x1D \<or> c = CHR 0x1E \<or> c = CHR 0x1F)"

text \<open>\<open>s.strip()\<close>\<close>

definition py_strip :: "string \<Rightarrow> string" where
  "py_strip s = rev (dropWhile is_space (rev (dropWhile is_space s)))"

text \<open>\<open>s.startswith(p)\<close>\<close>

fun startswith :: "string \<Rightarrow> string \<Rightarrow> bool" where
  "startswith s [] = True"
| "startswith [] (p # ps) = False"
| "startswith (c # cs) (p # ps) = (c = p \<and> startswith cs ps)"

text \<open>\<open>sub in s\<close>\<close>

fun contains :: "string \<Rightarrow> string \<Rightarrow> bool" where
  "contains [] sub = (sub = [])"
| "contains (c # cs) sub = (startswith (c # cs) sub \<or> contains cs sub)"

text \<open>
  \<open>s.split(sep)\<close> for a non-empty separator: \<open>split_from sep cur s\<close> scans \<open>s\<close> from the
  left, \<open>cur\<close> being the piece collected since the last separator.
\<close>

fun split_from :: "string \<Rightarrow> string \<Rightarrow> string \<Rightarrow> string list" where
  "split_from sep cur [] = [cur]"
| "split_from sep cur (c # cs) =
     (if sep \<noteq> [] \<and> startswith (c # cs) sep
      then cur # split_from sep [] (drop (length sep - 1) cs)
      else split_from sep (cur @ [c]) cs)"

definition py_split :: "string \<Rightarrow> string \<Rightarrow> string list" where
  "py_split s sep = split_from sep [] s"

text \<open>\<open>s.split()\<close>: the maximal runs of non-blank characters.\<close>

fun words_from :: "string \<Rightarrow> string \<Rightarrow> string list" where
  "words_from cur [] = (if cur = [] then [] else [cur])"
| "words_from cur (c # cs) =
     (if is_space c then (if cur = [] then words_from [] cs else cur # words_from [] cs)
      else words_from (cur @ [c]) cs)"

definition py_words :: "string \<Rightarrow> string list" where
  "py_words s = words_from [] s"

text \<open>\<open>sep.join(xs)\<close>\<close>

fun py_join :: "string \<Rightarrow> string list \<Rightarrow> string" where
  "py_join sep [] = []"
| "py_join sep [x] = x"
| "py_join sep (x # y # ys) = x @ sep @ py_join sep (y # ys)"

text \<open>\<open>s.replace(old, new)\<close>; an empty \<open>old\<close> matches before every character and at the end.\<close>

definition py_replace :: "string \<Rightarrow> string \<Rightarrow> string \<Rightarrow> string" where
  "py_replace s old new =
     (if old = [] then new @ concat (map (\<lambda>c. c # new) s) else py_join new (py_split s old))"

text \<open>\<open>s.find(c)\<close> for a single character: the first index, or \<open>-1\<close>.\<close>

definition py_find :: "string \<Rightarrow> char \<Rightarrow> int" where
  "py_find s c = (if c \<in> set s then int (length (takeWhile (\<lambda>x. x \<noteq> c) s)) else - 1)"

text \<open>\<open>s[i:j]\<close> with Python's treatment of negative and out-of-range bounds.\<close>

definition clamp_index :: "nat \<Rightarrow> int \<Rightarrow> nat" where
  "clamp_index n i = (if i < 0 then nat (int n + i) else min n (nat i))"

definition py_slice :: "string \<Rightarrow> int \<Rightarrow> int \<Rightarrow> string" where
  "py_slice s i j =
     (let a = clamp_index (length s) i; b = clamp_index (length s) j in take (b - a) (drop a s))"

text \<open>Indexing a list: \<open>xs[i]\<close> for \<open>i \<ge> 0\<close> and \<open>xs[-1]\<close>; \<open>None\<close> stands for IndexError.\<close>

definition py_nth :: "'a list \<Rightarrow> nat \<Rightarrow> 'a option" where
  "py_nth xs i = (if i < length xs then Some (xs ! i) else None)"

definition py_last :: "'a list \<Rightarrow> 'a option" where
  "py_last xs = (if xs = [] then None else Some (last xs))"

text \<open>\<open>s.lower()\<close> and \<open>s.upper()\<close> on ASCII letters.\<close>

definition lower_char :: "char \<Rightarrow> char" where
  "lower_char c =
     (case map_of (zip ''ABCDEFGHIJKLMNOPQRSTUVWXYZ'' ''abcdefghijklmnopqrstuvwxyz'') c of
        Some d \<Rightarrow> d | None \<Rightarrow> c)"

definition upper_char :: "char \<Rightarrow> char" where
  "upper_char c =
     (case map_of (zip ''abcdefghijklmnopqrstuvwxyz'' ''ABCDEFGHIJKLMNOPQRSTUVWXYZ'') c of
        Some d \<Rightarrow> d | None \<Rightarrow> c)"

definition py_lower :: "string \<Rightarrow> string" where
  "py_lower s = map lower_char s"

definition py_upper :: "string \<Rightarrow> string" where
  "py_upper s = map upper_char s"

text \<open>
  \<open>int(s)\<close> in base ten: surrounding white space is ignored, one sign is allowed, and single
  underscores may separate digits. \<open>None\<close> stands for ValueError.
\<close>

definition digit_val :: "char \<Rightarrow> nat option" where
  "digit_val c = map_of (zip ''0123456789'' [0, 1, 2, 3, 4, 5, 6, 7, 8, 9]) c"

fun parse_digits :: "nat \<Rightarrow> string \<Rightarrow> nat option" where
  "parse_digits acc [] = Some acc"
| "parse_digits acc [c] = (case digit_val c of Some d \<Rightarrow> Some (10 * acc + d) | None \<Rightarrow> None)"
| "parse_digits acc (c # c' # cs) =
     (case digit_val c of
        Some d \<Rightarrow> parse_digits (10 * acc + d) (c' # cs)
      | None \<Rightarrow>
          (if c = CHR ''_'' then
             (case digit_val c' of Some d \<Rightarrow> parse_digits (10 * acc + d) cs | None \<Rightarrow> None)
           else None))"

definition parse_nat :: "string \<Rightarrow> nat option" where
  "parse_nat s = (case s of [] \<Rightarrow> None
     | c # cs \<Rightarrow> (case digit_val c of Some d \<Rightarrow> parse_digits d cs | None \<Rightarrow> None))"

definition py_int :: "string \<Rightarrow> int option" where
  "py_int s = (case py_strip s of [] \<Rightarrow> None
     | c # cs \<Rightarrow>
         if c = CHR ''-'' then map_option (\<lambda>n. - int n) (parse_nat cs)
         else if c = CHR ''+'' then map_option int (parse_nat cs)
         else map_option int (parse_nat (c # cs)))"

text \<open>\<open>bool(s)\<close> of a string: true exactly when the string is not empty.\<close>

definition py_bool :: "string \<Rightarrow> bool" where
  "py_bool s = (s \<noteq> [])"

text \<open>\<open>s.splitlines()\<close> with the ASCII line boundaries.\<close>

definition is_linebreak :: "char \<Rightarrow> bool" where
  "is_linebreak c = (c = CHR 0x0A \<or> c = CHR 0x0B \<or> c = CHR 0x0C \<or> c = CHR 0x0D
     \<or> c = CHR 0x1C \<or> c = CHR 0x1D \<or> c = CHR 0x1E)"

fun lines_from :: "string \<Rightarrow> string \<Rightarrow> string list" where
  "lines_from cur [] = (if cur = [] then [] else [cur])"
| "lines_from cur [c] = (if is_linebreak c then [cur] else [cur @ [c]])"
| "lines_from cur (c # c' # cs) =
     (if c = CHR 0x0D \<and> c' = CHR 0x0A then cur # lines_from [] cs
      else if is_linebreak c then cur # lines_from [] (c' # cs)
      else lines_from (cur @ [c]) (c' # cs))"

definition py_splitlines :: "string \<Rightarrow> string list" where
  "py_splitlines s = lines_from [] s"

text \<open>
  \<open>repr(s)\<close> of a string and \<open>str(xs)\<close> of a list of strings, as \<open>format\<close> renders a list.
  Bytes above 0x7E other than DEL are taken to be printable.
\<close>

definition hex_digit :: "nat \<Rightarrow> char" where
  "hex_digit n = ''0123456789abcdef'' ! (n mod 16)"

definition repr_char :: "char \<Rightarrow> char \<Rightarrow> string" where
  "repr_char q c =
     (let n = (of_char c :: nat) in
      if c = q \<or> c = CHR 0x5C then [CHR 0x5C, c]
      else if c = CHR 0x09 then [CHR 0x5C, CHR ''t'']
      else if c = CHR 0x0A then [CHR 0x5C, CHR ''n'']
      else if c = CHR 0x0D then [CHR 0x5C, CHR ''r'']
      else if n < 32 \<or> n = 127 then [CHR 0x5C, CHR ''x'', hex_digit (n div 16), hex_digit (n mod 16)]
      else [c])"

definition py_repr :: "string \<Rightarrow> string" where
  "py_repr s =
     (let q = (if CHR 0x27 \<in> set s \<and> CHR 0x22 \<notin> set s then CHR 0x22 else CHR 0x27)
      in q # concat (map (repr_char q) s) @ [q])"

definition py_str_list :: "string list \<Rightarrow> string" where
  "py_str_list xs = ''['' @ py_join '', '' (map py_repr xs) @ '']''"


section \<open>Data model\<close>

text \<open>Exceptions raised by the featurizer or by the Python operations it uses.\<close>

datatype py_error =
    ValueError string
  | ConnectionError string
  | PyException string
  | IndexError
  | KeyError string
  | AttributeError

text \<open>
  Values of a query parameter. The type \<open>'f\<close> stands for Python floats, which are produced
  only by the conversion \<open>float\<close> supplied by the environment.
\<close>

datatype 'f pyval = PNone | PInt int | PFloat 'f | PBool bool | PStr string

type_synonym 'f params = "(string \<times> 'f pyval) list"

text \<open>
  A Python dictionary keeps its keys in insertion order: \<open>d[k] = v\<close> overwrites the value of
  an existing key in place and appends a new key.
\<close>

fun dict_set :: "('k \<times> 'v) list \<Rightarrow> 'k \<Rightarrow> 'v \<Rightarrow> ('k \<times> 'v) list" where
  "dict_set [] k v = [(k, v)]"
| "dict_set ((k', v') # d) k v = (if k' = k then (k', v) # d else (k', v') # dict_set d k v)"

text \<open>The nested dictionary of algorithms: a value is a URL or a dictionary again.\<close>

datatype algo = Url string | Dict "(string \<times> algo) list"

text \<open>
  An element of the list \<open>target\<close> of \<open>_add_attribute\<close>: a type name, or a whole list of names
  (Python lists hold either).
\<close>

datatype pyobj = Name string | Names "string list"

text \<open>\<open>str(t)\<close> as \<open>format\<close> renders a target.\<close>

fun py_str :: "pyobj \<Rightarrow> string" where
  "py_str (Name n) = n"
| "py_str (Names ns) = py_str_list ns"

text \<open>
  The metadata of a vertex or edge type, as far as \<open>_add_attribute\<close> reads it: the value of
  the key \<open>Attributes\<close> (absent: \<open>None\<close>), a list of entries each with the value of its key
  \<open>AttributeName\<close> (absent: \<open>None\<close>).
\<close>

type_synonym meta_data = "string option list option"

text \<open>
  What the featurizer does to the outside, in order: lines printed, pages fetched, and the
  calls made on the connection.
\<close>

datatype 'f event =
    Print string
  | PrintParams string "'f params"
  | HttpGet string
  | GetInstalledQueries
  | Gsql string
  | RunInstalledQuery string "'f params option" int "int option"
  | GetVertexTypes
  | GetEdgeTypes
  | GetVertexType pyobj
  | GetEdgeType pyobj
  | RandomString nat

text \<open>
  The collaborators: the connection \<open>conn\<close> with its graph name and methods, the HTTP fetch
  \<open>requests.get(url).text\<close>, the helper \<open>random_string\<close> and the conversion \<open>float\<close>. Each is
  a function of the state \<open>'w\<close> of the outside world; the calls that change the server
  return the new world. \<open>getInstalledQueries\<close> gives the keys of the dictionary that the
  connection returns, which is all that \<open>in\<close> looks at. \<open>'q\<close> is the result of a query.
\<close>

record ('w, 'f, 'q) env =
  graphname :: string
  getInstalledQueries :: "'w \<Rightarrow> string list"
  gsql :: "string \<Rightarrow> 'w \<Rightarrow> string \<times> 'w"
  runInstalledQuery :: "string \<Rightarrow> 'f params option \<Rightarrow> int \<Rightarrow> int option \<Rightarrow> 'w \<Rightarrow> 'q option \<times> 'w"
  getVertexTypes :: "'w \<Rightarrow> string list"
  getEdgeTypes :: "'w \<Rightarrow> string list"
  getVertexType :: "pyobj \<Rightarrow> 'w \<Rightarrow> py_error + meta_data"
  getEdgeType :: "pyobj \<Rightarrow> 'w \<Rightarrow> py_error + meta_data"
  requests_get :: "string \<Rightarrow> 'w \<Rightarrow> string"
  random_string :: "nat \<Rightarrow> 'w \<Rightarrow> string \<times> 'w"
  py_float :: "string \<Rightarrow> 'f option"

text \<open>
  The attributes of a \<open>Featurizer\<close> object, together with the outside world and the events
  so far.
\<close>

record ('w, 'f) state =
  queryResult_type_dict :: "(string \<times> string) list"
  params_dict :: "(string \<times> 'f params) list"
  query :: string
  algo_dict :: "(string \<times> algo) list"
  result_attr :: "string option"
  world :: 'w
  out :: "'f event list"

definition emit :: "'f event list \<Rightarrow> ('w, 'f) state \<Rightarrow> ('w, 'f) state" where
  "emit evs s = s\<lparr>out := out s @ evs\<rparr>"


section \<open>The catalog and its resolution\<close>

text \<open>\<open>_get_values\<close>: the URLs at the leaves of a nested dictionary, in iteration order.\<close>

fun get_values :: "(string \<times> algo) list \<Rightarrow> string list" where
  "get_values [] = []"
| "get_values ((k, Url v) # d) = v # get_values d"
| "get_values ((k, Dict d') # d) = get_values d' @ get_values d"

text \<open>\<open>query_url.split('/')[-1][:-5]\<close>: the file name of a URL without its last five characters.\<close>

definition leaf_name :: "string \<Rightarrow> string" where
  "leaf_name query_url = (let f = last (py_split query_url ''/'') in take (length f - 5) f)"

text \<open>
  \<open>"https://github.com/tigergraph/gsql-graph-algorithms/blob/master" + value.split('master')[1]\<close>;
  the index fails when the URL does not contain \<open>master\<close>.
\<close>

definition blob_url :: "string \<Rightarrow> py_error + string" where
  "blob_url v =
     (case py_nth (py_split v ''master'') 1 of
        None \<Rightarrow> Inl IndexError
      | Some rest \<Rightarrow> Inr (''https://github.com/tigergraph/gsql-graph-algorithms/blob/master'' @ rest))"

text \<open>
  \<open>_print_dict\<close> without a category: the lines printed, and the exception that stopped the
  printing, if any.
\<close>

fun print_items :: "nat \<Rightarrow> (string \<times> algo) list \<Rightarrow> string list \<times> py_error option" where
  "print_items indent [] = ([], None)"
| "print_items indent ((key, Url v) # d) =
     (let head = replicate indent CHR '' '' @ key @ '': '' in
      case (if v \<noteq> [] then blob_url v else Inr v) of
        Inl e \<Rightarrow> ([head], Some e)
      | Inr v' \<Rightarrow>
          (case print_items indent d of
             (ls, e) \<Rightarrow> (head # (replicate (indent + 1) CHR '' '' @ v' @ ''. '') # ls, e)))"
| "print_items indent ((key, Dict d') # d) =
     (let head = replicate indent CHR '' '' @ key @ '': '' in
      case print_items (indent + 1) d' of
        (ls, Some e) \<Rightarrow> (head # ls, Some e)
      | (ls, None) \<Rightarrow> (case print_items indent d of (ls', e) \<Rightarrow> (head # ls @ ls', e)))"

text \<open>\<open>_print_dict\<close> with its optional category.\<close>

definition print_dict :: "(string \<times> algo) list \<Rightarrow> string option \<Rightarrow> nat \<Rightarrow> string list \<times> py_error option" where
  "print_dict d category indent =
     (case category of
        None \<Rightarrow> print_items indent d
      | Some c \<Rightarrow>
          (case map_of d c of
             None \<Rightarrow> ([], Some (ValueError ''There is no such category within the algorithms.''))
           | Some (Url v) \<Rightarrow> ([], Some AttributeError)
           | Some (Dict d') \<Rightarrow> print_items indent d'))"

definition listAlgorithms :: "string option \<Rightarrow> ('w, 'f) state \<Rightarrow> (py_error + unit) \<times> ('w, 'f) state" where
  "listAlgorithms category s =
     (let header = (case category of
            Some c \<Rightarrow> py_join '' '' [''Available algorithms for category'', c,
                        ''in the GDS (https://github.com/tigergraph/gsql-graph-algorithms):'']
          | None \<Rightarrow> ''The list of the categories for available algorithms in the GDS (https://github.com/tigergraph/gsql-graph-algorithms):'')
      in case print_dict (algo_dict s) category 0 of
           (ls, Some e) \<Rightarrow> (Inl e, emit (map Print (header # ls)) s)
         | (ls, None) \<Rightarrow> (Inr (), emit (map Print (header # ls)) s))"

text \<open>\<open>_is_query_installed\<close>\<close>

definition is_query_installed :: "('w, 'f, 'q) env \<Rightarrow> string \<Rightarrow> ('w, 'f) state \<Rightarrow> bool \<times> ('w, 'f) state" where
  "is_query_installed E query_name s =
     (let resp = ''GET /query/'' @ graphname E @ ''/'' @ query_name;
          queries = getInstalledQueries E (world s)
      in (resp \<in> set queries, emit [GetInstalledQueries] s))"

text \<open>
  The loop of \<open>_get_query\<close>: every URL whose leaf name is the query name is fetched, and each
  fetch overwrites \<open>query\<close>.
\<close>

fun get_query_loop :: "('w, 'f, 'q) env \<Rightarrow> string \<Rightarrow> string list \<Rightarrow> string \<Rightarrow> ('w, 'f) state \<Rightarrow> string \<times> ('w, 'f) state" where
  "get_query_loop E query_name [] q s = (q, s)"
| "get_query_loop E query_name (query_url # us) q s =
     (if query_name = leaf_name query_url
      then get_query_loop E query_name us (requests_get E query_url (world s)) (emit [HttpGet query_url] s)
      else get_query_loop E query_name us q s)"

definition not_included :: py_error where
  "not_included = ValueError ''The query name is not included in the list of queries.''"

text \<open>\<open>listAlgorithms()\<close> followed by a \<open>raise\<close> of the given exception.\<close>

definition list_and_raise :: "py_error \<Rightarrow> ('w, 'f) state \<Rightarrow> (py_error + 'a) \<times> ('w, 'f) state" where
  "list_and_raise err s =
     (case listAlgorithms None s of
        (Inl e, s') \<Rightarrow> (Inl e, s')
      | (Inr u, s') \<Rightarrow> (Inl err, s'))"

definition get_query :: "('w, 'f, 'q) env \<Rightarrow> string \<Rightarrow> ('w, 'f) state \<Rightarrow> (py_error + string) \<times> ('w, 'f) state" where
  "get_query E query_name s =
     (case get_query_loop E query_name (get_values (algo_dict s)) [] s of
        (q, s') \<Rightarrow> if q = [] then list_and_raise not_included s' else (Inr q, s'))"

text \<open>\<open>_get_query_url\<close>: the loop returns at the first URL whose leaf name is the query name.\<close>

fun get_query_url_loop :: "string \<Rightarrow> string list \<Rightarrow> (py_error + string) option" where
  "get_query_url_loop query_name [] = None"
| "get_query_url_loop query_name (query_url # us) =
     (if query_name = leaf_name query_url then Some (blob_url query_url)
      else get_query_url_loop query_name us)"

definition get_query_url :: "string \<Rightarrow> ('w, 'f) state \<Rightarrow> (py_error + string) \<times> ('w, 'f) state" where
  "get_query_url query_name s =
     (case get_query_url_loop query_name (get_values (algo_dict s)) of
        Some r \<Rightarrow> (r, s)
      | None \<Rightarrow> list_and_raise not_included s)"


section \<open>The installer\<close>

text \<open>
  The argument \<open>replace\<close> is an optional dictionary, given by its items in order. The
  \<open>for\<close> loop of \<open>_install_query_file\<close> replaces each placeholder in turn.
\<close>

fun replace_all :: "string \<Rightarrow> (string \<times> string) list \<Rightarrow> string" where
  "replace_all q [] = q"
| "replace_all q ((placeholder, v) # r) = replace_all (py_replace q placeholder v) r"

text \<open>The name after the suffix has been put in, the first step of \<open>_install_query_file\<close>.\<close>

definition suffixed_name :: "string \<Rightarrow> (string \<times> string) list option \<Rightarrow> string" where
  "suffixed_name query_name replace =
     (case replace of
        None \<Rightarrow> query_name
      | Some r \<Rightarrow>
          (case map_of r ''{QUERYSUFFIX}'' of
             None \<Rightarrow> query_name
           | Some suffix \<Rightarrow> py_replace query_name ''{QUERYSUFFIX}'' suffix))"

definition install_query_file ::
  "('w, 'f, 'q) env \<Rightarrow> string \<Rightarrow> (string \<times> string) list option \<Rightarrow> ('w, 'f) state
     \<Rightarrow> (py_error + string) \<times> ('w, 'f) state" where
  "install_query_file E query_name0 replace s =
     (let query_name = suffixed_name query_name0 replace in
      case is_query_installed E (py_strip query_name) s of
        (True, s1) \<Rightarrow> (Inr query_name, s1)
      | (False, s1) \<Rightarrow>
          (case get_query E query_name s1 of
             (Inl e, s2) \<Rightarrow> (Inl e, s2)
           | (Inr q, s2) \<Rightarrow>
               (let q' = (case replace of None \<Rightarrow> q | Some r \<Rightarrow> replace_all q r);
                    s3 = s2\<lparr>query := q'\<rparr>;
                    cmd = ''USE GRAPH '' @ graphname E @ [CHR 0x0A] @ q'
                          @ [CHR 0x0A] @ ''install Query '' @ query_name @ [CHR 0x0A];
                    s4 = emit [Print ''Installing and optimizing the queries, it might take a minute''] s3
                in case gsql E cmd (world s4) of
                     (resp, w) \<Rightarrow>
                       (let s5 = emit [Gsql cmd] (s4\<lparr>world := w\<rparr>) in
                        case py_last (py_splitlines resp) of
                          None \<Rightarrow> (Inl IndexError, s5)
                        | Some status \<Rightarrow>
                            if contains status ''Failed'' then (Inl (ConnectionError status), s5)
                            else (Inr query_name, s5)))))"

definition installAlgorithm ::
  "('w, 'f, 'q) env \<Rightarrow> string \<Rightarrow> ('w, 'f) state \<Rightarrow> (py_error + string) \<times> ('w, 'f) state" where
  "installAlgorithm E query_name s =
     (case install_query_file E query_name None s of
        (Inl e, s') \<Rightarrow> (Inl e, s')
      | (Inr resp, s') \<Rightarrow> (Inr (py_strip resp), s'))"

section \<open>The schema change\<close>

text \<open>The names collected by the inner loop of \<open>_add_attribute\<close>; \<open>None\<close> when an entry has no name.\<close>

fun attribute_names :: "string option list \<Rightarrow> string list option" where
  "attribute_names [] = Some []"
| "attribute_names (None # es) = None"
| "attribute_names (Some a # es) = map_option ((#) a) (attribute_names es)"

text \<open>
  The list \<open>target\<close>: the type names of the schema, or, when \<open>schema_name\<close> is given, the
  list emptied by \<open>clear\<close> and then holding the one object added by \<open>append\<close>.
\<close>

definition targets :: "string list \<Rightarrow> string list option \<Rightarrow> pyobj list" where
  "targets type_names schema_name =
     (case schema_name of None \<Rightarrow> map Name type_names | Some ns \<Rightarrow> [Names ns])"

fun add_attribute_loop ::
  "('w, 'f, 'q) env \<Rightarrow> bool \<Rightarrow> string \<Rightarrow> string \<Rightarrow> string option \<Rightarrow> pyobj list \<Rightarrow> string list
     \<Rightarrow> ('w, 'f) state \<Rightarrow> (py_error + string list) \<times> ('w, 'f) state" where
  "add_attribute_loop E v_type schema_type attr_type attr_name [] tasks s = (Inr tasks, s)"
| "add_attribute_loop E v_type schema_type attr_type attr_name (t # ts) tasks s =
     (let s1 = emit [if v_type then GetVertexType t else GetEdgeType t] s in
      case (if v_type then getVertexType E t (world s) else getEdgeType E t (world s)) of
        Inl e \<Rightarrow> (Inl e, s1)
      | Inr None \<Rightarrow> (Inl (KeyError ''Attributes''), s1)
      | Inr (Some entries) \<Rightarrow>
          (case attribute_names entries of
             None \<Rightarrow> (Inl (KeyError ''AttributeName''), s1)
           | Some attributes \<Rightarrow>
               (case attr_name of
                  None \<Rightarrow> add_attribute_loop E v_type schema_type attr_type attr_name ts tasks s1
                | Some a \<Rightarrow>
                    if a \<notin> set attributes
                    then add_attribute_loop E v_type schema_type attr_type attr_name ts
                           (tasks @ [''ALTER '' @ schema_type @ '' '' @ py_str t @ '' ADD ATTRIBUTE (''
                                     @ a @ '' '' @ attr_type @ '');'' @ [CHR 0x0A]]) s1
                    else add_attribute_loop E v_type schema_type attr_type attr_name ts tasks s1)))"

definition add_attribute ::
  "('w, 'f, 'q) env \<Rightarrow> string \<Rightarrow> string \<Rightarrow> string option \<Rightarrow> string list option \<Rightarrow> ('w, 'f) state
     \<Rightarrow> (py_error + string) \<times> ('w, 'f) state" where
  "add_attribute E schema_type attr_type attr_name schema_name s0 =
     (let s = s0\<lparr>result_attr := attr_name\<rparr> in
      if py_upper schema_type \<noteq> ''VERTEX'' \<and> py_upper schema_type \<noteq> ''EDGE''
      then (Inl (PyException ''schema_type has to be VERTEX or EDGE''), s)
      else
        (let v_type = (py_upper schema_type = ''VERTEX'');
             s1 = emit [if v_type then GetVertexTypes else GetEdgeTypes] s;
             target = targets (if v_type then getVertexTypes E (world s) else getEdgeTypes E (world s))
                        schema_name
         in case add_attribute_loop E v_type schema_type attr_type attr_name target [] s1 of
              (Inl e, s2) \<Rightarrow> (Inl e, s2)
            | (Inr tasks, s2) \<Rightarrow>
                if tasks = [] then (Inr ''Attribute already exists'', s2)
                else
                  (case random_string E 6 (world s2) of
                     (rnd, w) \<Rightarrow>
                       (let s3 = emit [RandomString 6] (s2\<lparr>world := w\<rparr>);
                            job_name = ''add_'' @ schema_type @ ''_attr_'' @ rnd;
                            job = ''USE GRAPH '' @ graphname E @ [CHR 0x0A]
                                  @ ''CREATE GLOBAL SCHEMA_CHANGE JOB '' @ job_name @ '' {'' @ [CHR 0x0A]
                                  @ concat tasks
                                  @ ''}'' @ [CHR 0x0A] @ ''RUN GLOBAL SCHEMA_CHANGE JOB '' @ job_name
                        in case gsql E job (world s3) of
                             (resp, w') \<Rightarrow>
                               (let s4 = emit [Gsql job] (s3\<lparr>world := w'\<rparr>) in
                                case py_last (py_splitlines resp) of
                                  None \<Rightarrow> (Inl IndexError, s4)
                                | Some status \<Rightarrow>
                                    if contains status ''Failed'' then (Inl (ConnectionError status), s4)
                                    else (Inr ''Global schema change succeeded.'', emit [Print status] s4))))))"

section \<open>The default parameters\<close>

text \<open>
  One round of the loop of \<open>_get_Params\<close> on the parameter text \<open>p\<close>. \<open>None\<close> means that the
  round raised; no exception leaves the \<open>try\<close> block, so which one it was does not matter.
  The four tests on the type are exclusive, so the chain of \<open>if\<close>s is written as a cascade.
\<close>

definition param_step :: "('w, 'f, 'q) env \<Rightarrow> string \<Rightarrow> 'f params \<Rightarrow> 'f params option" where
  "param_step E p d =
     (if CHR ''='' \<in> set p then
        (case (py_nth (py_split p ''='') 0, py_nth (py_split p ''='') 1) of
           (Some lhs, Some rhs) \<Rightarrow>
             (case py_nth (py_words lhs) 0 of
                None \<Rightarrow> None
              | Some params_type \<Rightarrow>
                  (let ty = py_lower params_type; key = py_nth (py_words lhs) 1 in
                   if ty = ''float'' \<or> ty = ''double'' then
                     (case (py_float E rhs, key) of
                        (Some f, Some k) \<Rightarrow> Some (dict_set d k (PFloat f)) | _ \<Rightarrow> None)
                   else if ty = ''bool'' then
                     (case key of Some k \<Rightarrow> Some (dict_set d k (PBool (py_bool rhs))) | None \<Rightarrow> None)
                   else if ty = ''int'' then
                     (case (py_int rhs, key) of
                        (Some n, Some k) \<Rightarrow> Some (dict_set d k (PInt n)) | _ \<Rightarrow> None)
                   else if ty = ''string'' then
                     (case (py_nth (py_words rhs) 0, key) of
                        (Some lit, Some k) \<Rightarrow>
                          Some (dict_set d k (PStr (drop 1 (take (length lit - 2) lit))))
                      | _ \<Rightarrow> None)
                   else Some d))
         | _ \<Rightarrow> None)
      else
        (case py_nth (py_words p) 1 of
           None \<Rightarrow> None
         | Some k \<Rightarrow> Some (dict_set d k PNone)))"

text \<open>The loop: the dictionary built so far, and whether the loop ran to its end.\<close>

fun params_loop :: "('w, 'f, 'q) env \<Rightarrow> string list \<Rightarrow> 'f params \<Rightarrow> 'f params \<times> bool" where
  "params_loop E [] d = (d, True)"
| "params_loop E (p # ps) d =
     (case param_step E p d of None \<Rightarrow> (d, False) | Some d' \<Rightarrow> params_loop E ps d')"

text \<open>The dictionary parsed from the header of a query text.\<close>

definition parse_params :: "('w, 'f, 'q) env \<Rightarrow> string \<Rightarrow> 'f params \<times> bool" where
  "parse_params E q =
     (let input_params = py_slice q (py_find q CHR ''('' + 1) (py_find q CHR '')'');
          list_params = py_split input_params '',''
      in params_loop E list_params [])"

definition get_Params ::
  "('w, 'f, 'q) env \<Rightarrow> string \<Rightarrow> ('w, 'f) state \<Rightarrow> (py_error + 'f params) \<times> ('w, 'f) state" where
  "get_Params E query_name s =
     (case get_query E query_name s of
        (Inl e, s1) \<Rightarrow> (Inl e, s1)
      | (Inr q, s1) \<Rightarrow>
          if q = [] then
            list_and_raise (ValueError ''The query name is not included in the list of defined queries '') s1
          else
            (case parse_params E q of
               (d, ok) \<Rightarrow>
                 (let s2 = (if ok then s1
                            else emit [Print ''The algorithm does not have any input parameter.''] s1)
                  in (Inr d, s2\<lparr>params_dict := dict_set (params_dict s2) query_name d\<rparr>))))"

section \<open>Running an algorithm\<close>

text \<open>The call of \<open>conn.runInstalledQuery\<close> and the return of its result.\<close>

definition run_query ::
  "('w, 'f, 'q) env \<Rightarrow> string \<Rightarrow> 'f params option \<Rightarrow> int \<Rightarrow> int option \<Rightarrow> ('w, 'f) state
     \<Rightarrow> (py_error + 'q option) \<times> ('w, 'f) state" where
  "run_query E query_name params timeout sizeLimit s =
     (case runInstalledQuery E query_name params timeout sizeLimit (world s) of
        (result, w) \<Rightarrow>
          (Inr result, emit [RunInstalledQuery query_name params timeout sizeLimit] (s\<lparr>world := w\<rparr>)))"

text \<open>\<open>_get_query_url\<close> followed by the \<open>raise ValueError(prefix + query_ulr + ".")\<close>.\<close>

definition raise_with_url ::
  "string \<Rightarrow> string \<Rightarrow> ('w, 'f) state \<Rightarrow> (py_error + 'a) \<times> ('w, 'f) state" where
  "raise_with_url prefix query_name s =
     (case get_query_url query_name s of
        (Inl e, s') \<Rightarrow> (Inl e, s')
      | (Inr query_ulr, s') \<Rightarrow> (Inl (ValueError (prefix @ query_ulr @ ''.'')), s'))"

definition runAlgorithm ::
  "('w, 'f, 'q) env \<Rightarrow> string \<Rightarrow> 'f params option \<Rightarrow> string \<Rightarrow> string option \<Rightarrow> string list option
     \<Rightarrow> int \<Rightarrow> int option \<Rightarrow> ('w, 'f) state \<Rightarrow> (py_error + 'q option) \<times> ('w, 'f) state" where
  "runAlgorithm E query_name params schema_type feat_name schema_name timeout sizeLimit s =
     (case params of
        None \<Rightarrow>
          (case get_Params E query_name s of
             (Inl e, s1) \<Rightarrow> (Inl e, s1)
           | (Inr ps, s1) \<Rightarrow>
               (let s2 = emit [PrintParams ''Default parameters are:'' ps] s1 in
                if ps \<noteq> [] then
                  (if PNone \<in> set (map snd ps) then
                     raise_with_url
                       ''Query parameters which are not initialized by default need to be initialized, visit ''
                       query_name s2
                   else (Inr None, s2))
                else run_query E query_name None timeout sizeLimit s2))
      | Some ps \<Rightarrow>
          (case get_Params E query_name s of
             (Inl e, s1) \<Rightarrow> (Inl e, s1)
           | (Inr defualt_params, s1) \<Rightarrow>
               (if feat_name \<noteq> None \<and> feat_name \<noteq> Some [] then
                  (if ''result_attr'' \<in> set (map fst defualt_params) then
                     (let ps' = dict_set ps ''result_attr'' (PStr (case feat_name of Some f \<Rightarrow> f | None \<Rightarrow> [])) in
                      case map_of (queryResult_type_dict s1) query_name of
                        None \<Rightarrow> (Inl (KeyError query_name), s1)
                      | Some attr_type \<Rightarrow>
                          (case add_attribute E schema_type attr_type feat_name schema_name s1 of
                             (Inl e, s2) \<Rightarrow> (Inl e, s2)
                           | (Inr u, s2) \<Rightarrow> run_query E query_name (Some ps') timeout sizeLimit s2))
                   else raise_with_url
                          ''The algorithm does not provide any feature, see the algorithm details:''
                          query_name s1)
                else run_query E query_name (Some ps) timeout sizeLimit s1)))"

section \<open>The featurizer as constructed\<close>

definition initial_queryResult_type_dict :: "(string \<times> string) list" where
  "initial_queryResult_type_dict = [
   (''tg_pagerank'', ''Float''),
   (''tg_article_rank'', ''Float''),
   (''tg_betweenness_cent'', ''Float''),
   (''tg_closeness_cent'', ''Float''),
   (''tg_closeness_cent_approx'', ''Float''),
   (''tg_degree_cent'', ''INT''),
   (''tg_eigenvector_cent'', ''Float''),
   (''tg_harmonic_cent'', ''INT''),
   (''tg_pagerank_wt'', ''Float''),
   (''tg_scc'', ''INT''),
   (''tg_kcore'', ''INT''),
   (''tg_lcc'', ''Float''),
   (''tg_bfs'', ''INT''),
   (''tg_shortest_ss_no_wt'', ''INT''),
   (''tg_fastRP'', ''List<Double>''),
   (''tg_label_prop'', ''INT''),
   (''tg_louvain'', ''INT'')]"

definition initial_algo_dict :: "(string \<times> algo) list" where
  "initial_algo_dict = [
  (''Centrality'', Dict [
    (''pagerank'', Dict [
      (''global'', Dict [
        (''weigthed'', Url ''https://raw.githubusercontent.com/tigergraph/gsql-graph-algorithms/master/algorithms/Centrality/pagerank/global/weighted/tg_pagerank_wt.gsql''),
        (''unweighted'', Url ''https://raw.githubusercontent.com/tigergraph/gsql-graph-algorithms/master/algorithms/Centrality/pagerank/global/unweighted/tg_pagerank.gsql'')])]),
    (''article_rank'', Url ''https://raw.githubusercontent.com/tigergraph/gsql-graph-algorithms/master/algorithms/Centrality/article_rank/tg_article_rank.gsql''),
    (''Betweenness'', Url ''https://raw.githubusercontent.com/tigergraph/gsql-graph-algorithms/master/algorithms/Centrality/betweenness/tg_betweenness_cent.gsql''),
    (''closeness'', Dict [
      (''approximate'', Url ''https://raw.githubusercontent.com/tigergraph/gsql-graph-algorithms/master/algorithms/Centrality/closeness/approximate/tg_closeness_cent_approx.gsql''),
      (''exact'', Url ''https://raw.githubusercontent.com/tigergraph/gsql-graph-algorithms/master/algorithms/Centrality/closeness/exact/tg_closeness_cent.gsql'')]),
    (''degree'', Url ''https://raw.githubusercontent.com/tigergraph/gsql-graph-algorithms/master/algorithms/Centrality/degree/tg_degree_cent.gsql''),
    (''eigenvector'', Url ''https://raw.githubusercontent.com/tigergraph/gsql-graph-algorithms/master/algorithms/Centrality/eigenvector/tg_eigenvector_cent.gsql''),
    (''harmonic'', Url ''https://raw.githubusercontent.com/tigergraph/gsql-graph-algorithms/master/algorithms/Centrality/harmonic/tg_harmonic_cent.gsql'')]),
  (''Classification'', Dict [
    (''maximal_independent_set'', Dict [
      (''deterministic'', Url ''https://raw.githubusercontent.com/tigergraph/gsql-graph-algorithms/master/algorithms/Classification/maximal_independent_set/deterministic/tg_maximal_indep_set.gsql'')])]),
  (''Community'', Dict [
    (''connected_components'', Dict [
      (''strongly_connected_components'', Dict [
        (''standard'', Url ''https://raw.githubusercontent.com/tigergraph/gsql-graph-algorithms/master/algorithms/Community/connected_components/strongly_connected_components/standard/tg_scc.gsql'')])]),
    (''k_core'', Url ''https://raw.githubusercontent.com/tigergraph/gsql-graph-algorithms/master/algorithms/Community/k_core/tg_kcore.gsql''),
    (''label_propagation'', Url ''https://raw.githubusercontent.com/tigergraph/gsql-graph-algorithms/master/algorithms/Community/label_propagation/tg_label_prop.gsql''),
    (''local_clustering_coefficient'', Url ''https://raw.githubusercontent.com/tigergraph/gsql-graph-algorithms/master/algorithms/Community/local_clustering_coefficient/tg_lcc.gsql''),
    (''louvain'', Url ''https://raw.githubusercontent.com/tigergraph/gsql-graph-algorithms/master/algorithms/Community/louvain/tg_louvain.gsql''),
    (''triangle_counting'', Dict [
      (''fast'', Url ''https://raw.githubusercontent.com/tigergraph/gsql-graph-algorithms/master/algorithms/Community/triangle_counting/fast/tg_tri_count_fast.gsql'')])]),
  (''Embeddings'', Dict [
    (''FastRP'', Url ''https://raw.githubusercontent.com/tigergraph/gsql-graph-algorithms/master/algorithms/GraphML/Embeddings/FastRP/tg_fastRP.gsql'')]),
  (''Path'', Dict [
    (''bfs'', Url ''https://raw.githubusercontent.com/tigergraph/gsql-graph-algorithms/master/algorithms/Path/bfs/tg_bfs.gsql''),
    (''cycle_detection'', Dict [
      (''count'', Url ''https://raw.githubusercontent.com/tigergraph/gsql-graph-algorithms/master/algorithms/Path/cycle_detection/count/tg_cycle_detection_count.gsql'')]),
    (''shortest_path'', Dict [
      (''unweighted'', Url ''https://raw.githubusercontent.com/tigergraph/gsql-graph-algorithms/master/algorithms/Path/shortest_path/unweighted/tg_shortest_ss_no_wt.gsql'')])]),
  (''Topological Link Prediction'', Dict [
    (''common_neighbors'', Url ''https://raw.githubusercontent.com/tigergraph/gsql-graph-algorithms/master/algorithms/Topological%20Link%20Prediction/common_neighbors/tg_common_neighbors.gsql''),
    (''preferential_attachment'', Url ''https://raw.githubusercontent.com/tigergraph/gsql-graph-algorithms/master/algorithms/Topological%20Link%20Prediction/preferential_attachment/tg_preferential_attachment.gsql''),
    (''same_community'', Url ''https://raw.githubusercontent.com/tigergraph/gsql-graph-algorithms/master/algorithms/Topological%20Link%20Prediction/same_community/tg_same_community.gsql''),
    (''total_neighbors'', Url ''https://raw.githubusercontent.com/tigergraph/gsql-graph-algorithms/master/algorithms/Topological%20Link%20Prediction/total_neighbors/tg_total_neighbors.gsql'')])]"

text \<open>\<open>__init__\<close>: the attributes of a new featurizer, in the world \<open>w\<close> and with nothing done yet.\<close>

definition Featurizer_init :: "'w \<Rightarrow> ('w, 'f) state" where
  "Featurizer_init w =
     \<lparr>queryResult_type_dict = initial_queryResult_type_dict, params_dict = [], query = [],
      algo_dict = initial_algo_dict, result_attr = None, world = w, out = []\<rparr>"

section \<open>Notions used in the statements\<close>

text \<open>The URLs of a catalog whose leaf name is the given name, in iteration order.\<close>

definition matching :: "string \<Rightarrow> (string \<times> algo) list \<Rightarrow> string list" where
  "matching query_name d = filter (\<lambda>u. query_name = leaf_name u) (get_values d)"

text \<open>The events that are a remote execution, and those that are a command sent to the server.\<close>

fun is_run :: "'f event \<Rightarrow> bool" where
  "is_run (RunInstalledQuery n p t l) = True"
| "is_run e = False"

fun is_gsql :: "'f event \<Rightarrow> bool" where
  "is_gsql (Gsql c) = True"
| "is_gsql e = False"

fun is_fetch :: "'f event \<Rightarrow> bool" where
  "is_fetch (HttpGet u) = True"
| "is_fetch e = False"

text \<open>The entry of the installed-query listing that \<open>_is_query_installed\<close> looks for.\<close>

definition listing_entry :: "('w, 'f, 'q) env \<Rightarrow> string \<Rightarrow> string" where
  "listing_entry E query_name = ''GET /query/'' @ graphname E @ ''/'' @ query_name"

text \<open>
  The target \<open>t\<close> has a readable attribute list in the world \<open>w\<close>, and the attribute \<open>a\<close> is
  in it.
\<close>

definition has_attribute :: "('w, 'f, 'q) env \<Rightarrow> bool \<Rightarrow> 'w \<Rightarrow> string \<Rightarrow> pyobj \<Rightarrow> bool" where
  "has_attribute E v_type w a t =
     (case (if v_type then getVertexType E t w else getEdgeType E t w) of
        Inl e \<Rightarrow> False
      | Inr None \<Rightarrow> False
      | Inr (Some entries) \<Rightarrow>
          (case attribute_names entries of None \<Rightarrow> False | Some attributes \<Rightarrow> a \<in> set attributes))"

text \<open>The first line printed by \<open>listAlgorithms()\<close>.\<close>

definition listing_header :: string where
  "listing_header = ''The list of the categories for available algorithms in the GDS (https://github.com/tigergraph/gsql-graph-algorithms):''"

section \<open>An example environment\<close>

text \<open>
  A server for the graph \<open>g\<close> whose state is its listing of installed queries. A command
  with an install directive adds the named query to the listing. The schema has the vertex
  type \<open>Person\<close> with the attributes \<open>name\<close> and \<open>age\<close> and the edge type \<open>Knows\<close> with the
  attribute \<open>since\<close>. The page at a URL is given by \<open>web\<close>.
\<close>

definition example_gsql :: "string \<Rightarrow> string list \<Rightarrow> string \<times> string list" where
  "example_gsql cmd w =
     (if contains cmd ''install Query ''
      then (''Query installation finished.'',
            w @ [''GET /query/g/'' @ py_strip (last (py_split cmd ''install Query ''))])
      else (''Schema change finished.'', w))"

definition example_type :: "string \<Rightarrow> string list \<Rightarrow> pyobj \<Rightarrow> py_error + meta_data" where
  "example_type n attrs t = (if t = Name n then Inr (Some (map Some attrs)) else Inr None)"

definition example_env :: "(string \<Rightarrow> string) \<Rightarrow> (string list, unit, string) env" where
  "example_env web =
     \<lparr>graphname = ''g'',
      getInstalledQueries = (\<lambda>w. w),
      gsql = example_gsql,
      runInstalledQuery = (\<lambda>n p t l w. (Some ''done'', w)),
      getVertexTypes = (\<lambda>w. [''Person'']),
      getEdgeTypes = (\<lambda>w. [''Knows'']),
      getVertexType = (\<lambda>t w. example_type ''Person'' [''name'', ''age''] t),
      getEdgeType = (\<lambda>t w. example_type ''Knows'' [''since''] t),
      requests_get = (\<lambda>u w. web u),
      random_string = (\<lambda>n w. (replicate n CHR ''a'', w)),
      py_float = (\<lambda>x. None)\<rparr>"

text \<open>Two webs: every URL has the same page, or the page of a URL names the URL.\<close>

definition same_page :: "string \<Rightarrow> string \<Rightarrow> string" where
  "same_page text u = text"

definition page_of :: "string \<Rightarrow> string" where
  "page_of u = ''CREATE QUERY q() { } -- '' @ u"

text \<open>Query texts for the examples.\<close>

definition header_k :: string where
  "header_k = ''CREATE QUERY q(INT k = 5) { }''"

definition header_k_label :: string where
  "header_k_label = ''CREATE QUERY q(INT k = 5, STRING label = '' @ [CHR 0x22, CHR ''x'', CHR 0x22] @ '') { }''"

definition header_v_type :: string where
  "header_v_type = ''CREATE QUERY q(STRING v_type) { }''"

text \<open>The location of \<open>tg_pagerank\<close> in the catalog of a new featurizer.\<close>

definition pagerank_url :: string where
  "pagerank_url = ''https://raw.githubusercontent.com/tigergraph/gsql-graph-algorithms/master/algorithms/Centrality/pagerank/global/unweighted/tg_pagerank.gsql''"

text \<open>A catalog in which two categories have a leaf of the same name, and a featurizer with it.\<close>

definition url_A :: string where
  "url_A = ''https://raw.githubusercontent.com/tigergraph/gsql-graph-algorithms/master/algorithms/A/tg_x.gsql''"

definition url_B :: string where
  "url_B = ''https://raw.githubusercontent.com/tigergraph/gsql-graph-algorithms/master/algorithms/B/tg_x.gsql''"

definition twice_dict :: "(string \<times> algo) list" where
  "twice_dict = [(''A'', Dict [(''x'', Url url_A)]), (''B'', Dict [(''x'', Url url_B)])]"

definition twice_state :: "(string list, unit) state" where
  "twice_state = (Featurizer_init [])\<lparr>algo_dict := twice_dict\<rparr>"

text \<open>A new featurizer facing a server with nothing installed.\<close>

definition fresh :: "(string list, unit) state" where
  "fresh = Featurizer_init []"

section \<open>Basic facts\<close>

lemma emit_Nil: "emit [] s = s"
  by (simp add: emit_def)

lemma emit_emit: "emit evs' (emit evs s) = emit (evs @ evs') s"
  by (simp add: emit_def)

lemma emit_fields:
  "world (emit evs s) = world s" "algo_dict (emit evs s) = algo_dict s"
  "params_dict (emit evs s) = params_dict s" "out (emit evs s) = out s @ evs"
  "queryResult_type_dict (emit evs s) = queryResult_type_dict s"
  by (simp_all add: emit_def)

text \<open>The loop of \<open>_get_query\<close> fetches every matching URL and keeps the last text.\<close>

lemma get_query_loop_eq:
  "get_query_loop E n us q s =
     (if filter (\<lambda>u. n = leaf_name u) us = [] then q
      else requests_get E (last (filter (\<lambda>u. n = leaf_name u) us)) (world s),
      emit (map HttpGet (filter (\<lambda>u. n = leaf_name u) us)) s)"
proof (induction us arbitrary: q s)
  case Nil
  show ?case by (simp add: emit_Nil)
next
  case (Cons u us)
  show ?case
    by (simp only: get_query_loop.simps Cons.IH) (simp add: emit_emit emit_fields)
qed

lemma get_query_eq:
  "get_query E n s =
     (if matching n (algo_dict s) = [] \<or> requests_get E (last (matching n (algo_dict s))) (world s) = []
      then list_and_raise not_included (emit (map HttpGet (matching n (algo_dict s))) s)
      else (Inr (requests_get E (last (matching n (algo_dict s))) (world s)),
            emit (map HttpGet (matching n (algo_dict s))) s))"
  by (simp add: get_query_def get_query_loop_eq matching_def)

text \<open>The loop of \<open>_get_query_url\<close> stops at the first matching URL.\<close>

lemma get_query_url_loop_eq:
  "get_query_url_loop n us =
     (if filter (\<lambda>u. n = leaf_name u) us = [] then None
      else Some (blob_url (hd (filter (\<lambda>u. n = leaf_name u) us))))"
  by (induction us) simp_all

lemma get_query_url_eq:
  "get_query_url n s =
     (if matching n (algo_dict s) = [] then list_and_raise not_included s
      else (blob_url (hd (matching n (algo_dict s))), s))"
  by (simp add: get_query_url_def get_query_url_loop_eq matching_def)

lemma list_and_raise_eq:
  "list_and_raise e s =
     (Inl (case snd (print_items 0 (algo_dict s)) of None \<Rightarrow> e | Some e' \<Rightarrow> e'),
      emit (map Print (listing_header # fst (print_items 0 (algo_dict s)))) s)"
  by (cases "print_items 0 (algo_dict s)")
     (simp add: list_and_raise_def listAlgorithms_def print_dict_def listing_header_def
        split: option.splits)

subsection \<open>The catalog of a new featurizer\<close>

lemma initial_print: "snd (print_items 0 initial_algo_dict) = None"
  by code_simp

lemma initial_names:
  "map leaf_name (get_values initial_algo_dict) =
     [''tg_pagerank_wt'', ''tg_pagerank'', ''tg_article_rank'', ''tg_betweenness_cent'',
      ''tg_closeness_cent_approx'', ''tg_closeness_cent'', ''tg_degree_cent'',
      ''tg_eigenvector_cent'', ''tg_harmonic_cent'', ''tg_maximal_indep_set'', ''tg_scc'',
      ''tg_kcore'', ''tg_label_prop'', ''tg_lcc'', ''tg_louvain'', ''tg_tri_count_fast'',
      ''tg_fastRP'', ''tg_bfs'', ''tg_cycle_detection_count'', ''tg_shortest_ss_no_wt'',
      ''tg_common_neighbors'', ''tg_preferential_attachment'', ''tg_same_community'',
      ''tg_total_neighbors'']"
  by code_simp

lemma list_and_raise_initial:
  assumes "algo_dict s = initial_algo_dict"
  shows "list_and_raise e s =
           (Inl e, emit (map Print (listing_header # fst (print_items 0 initial_algo_dict))) s)"
  by (simp add: list_and_raise_eq assms initial_print)

section \<open>Names that are not in the catalog\<close>



section \<open>More basic facts\<close>

lemma initial_blob:
  "list_all (\<lambda>u. case blob_url u of Inl e \<Rightarrow> False | Inr v \<Rightarrow> True) (get_values initial_algo_dict)"
  by code_simp

lemma initial_blob_Inr:
  assumes "u \<in> set (get_values initial_algo_dict)"
  shows "\<exists>v. blob_url u = Inr v"
  using assms initial_blob by (cases "blob_url u") (auto simp: list_all_iff)

lemma initial_distinct: "distinct (map leaf_name (get_values initial_algo_dict))"
  by (simp add: initial_names)

lemma filter_distinct_map:
  "distinct (map f xs) \<Longrightarrow> x \<in> set xs \<Longrightarrow> filter (\<lambda>u. f x = f u) xs = [x]"
proof (induction xs)
  case Nil
  then show ?case by simp
next
  case (Cons y ys)
  show ?case
  proof (cases "x = y")
    case True
    have "filter (\<lambda>u. f y = f u) ys = []"
      using Cons.prems(1) by (auto simp: filter_empty_conv)
    then show ?thesis using True by simp
  next
    case False
    then have "x \<in> set ys" using Cons.prems(2) by simp
    moreover have "f y \<notin> f ` set ys" using Cons.prems(1) by simp
    then have "f x \<noteq> f y" using \<open>x \<in> set ys\<close> by (metis imageI)
    ultimately show ?thesis using Cons by simp
  qed
qed

lemma initial_matching:
  assumes "u \<in> set (get_values initial_algo_dict)"
  shows "matching (leaf_name u) initial_algo_dict = [u]"
  unfolding matching_def using initial_distinct assms by (rule filter_distinct_map)

lemma initial_types:
  "list_all (\<lambda>(n, t). n \<in> set (map leaf_name (get_values initial_algo_dict))
      \<and> (t = ''Float'' \<or> t = ''INT'' \<or> t = ''List<Double>'')) initial_queryResult_type_dict"
  by (simp add: initial_names initial_queryResult_type_dict_def)

text \<open>What \<open>_get_Params\<close> does, in terms of the matching URLs and the page of the last one.\<close>

lemma get_Params_eq:
  "get_Params E n s =
     (if matching n (algo_dict s) = [] \<or> requests_get E (last (matching n (algo_dict s))) (world s) = []
      then list_and_raise not_included (emit (map HttpGet (matching n (algo_dict s))) s)
      else (Inr (fst (parse_params E (requests_get E (last (matching n (algo_dict s))) (world s)))),
            (emit (map HttpGet (matching n (algo_dict s))
                   @ (if snd (parse_params E (requests_get E (last (matching n (algo_dict s))) (world s)))
                      then [] else [Print ''The algorithm does not have any input parameter.'']))
               s)\<lparr>params_dict := dict_set (params_dict s) n
                    (fst (parse_params E (requests_get E (last (matching n (algo_dict s))) (world s))))\<rparr>))"
  by (cases "parse_params E (requests_get E (last (matching n (algo_dict s))) (world s))")
     (simp add: get_Params_def get_query_eq list_and_raise_eq emit_emit emit_fields emit_Nil)

lemma filter_is_run_HttpGet: "filter is_run (map HttpGet us) = []"
  by (induction us) simp_all

lemma filter_is_fetch_HttpGet: "filter is_fetch (map HttpGet us) = map HttpGet us"
  by (induction us) simp_all

lemma filter_is_gsql_HttpGet: "filter is_gsql (map HttpGet us) = []"
  by (induction us) simp_all

lemma map_of_dict_set: "map_of (dict_set d k v) k = Some v"
  by (induction d) auto

lemma dict_set_twice: "dict_set (dict_set d k v) k v = dict_set d k v"
  by (induction d) auto

text \<open>The loop of \<open>_add_attribute\<close> queues nothing when every target has the attribute.\<close>

lemma add_attribute_loop_present:
  assumes "list_all (has_attribute E v (world s) a) ts"
  shows "add_attribute_loop E v schema_type attr_type (Some a) ts tasks s =
           (Inr tasks, emit (map (if v then GetVertexType else GetEdgeType) ts) s)"
  using assms
proof (induction ts arbitrary: s)
  case Nil
  show ?case by (simp add: emit_Nil)
next
  case (Cons t ts)
  have t: "has_attribute E v (world s) a t" and ts: "list_all (has_attribute E v (world s) a) ts"
    using Cons.prems by simp_all
  let ?s1 = "emit [if v then GetVertexType t else GetEdgeType t] s"
  have "list_all (has_attribute E v (world ?s1) a) ts"
    using ts by (simp add: emit_fields)
  then have IH: "add_attribute_loop E v schema_type attr_type (Some a) ts tasks ?s1 =
           (Inr tasks, emit (map (if v then GetVertexType else GetEdgeType) ts) ?s1)"
    by (rule Cons.IH)
  show ?case
    using t IH
    by (auto simp: has_attribute_def emit_emit split: sum.splits option.splits if_splits)
qed

text \<open>The two paths of \<open>_install_query_file\<close>.\<close>

lemma install_short_circuit:
  assumes "listing_entry E (py_strip (suffixed_name n r)) \<in> set (getInstalledQueries E (world s))"
  shows "install_query_file E n r s = (Inr (suffixed_name n r), emit [GetInstalledQueries] s)"
  using assms by (simp add: install_query_file_def is_query_installed_def listing_entry_def)

lemma install_first:
  assumes "listing_entry E (py_strip (suffixed_name n r)) \<notin> set (getInstalledQueries E (world s))"
      and "install_query_file E n r s = (Inr n', s1)"
  shows "n' = suffixed_name n r
       \<and> length (filter is_gsql (out s1)) = length (filter is_gsql (out s)) + 1"
  using assms
  by (auto simp: install_query_file_def is_query_installed_def listing_entry_def get_query_eq
        list_and_raise_eq Let_def emit_def filter_is_gsql_HttpGet
        split: if_splits prod.splits option.splits)

section \<open>Running with the default parameters\<close>

text \<open>
  Claim C1. The claim says that \<open>runAlgorithm\<close>, called without parameters on a query whose
  inferred defaults are all present, runs the query with those defaults and returns its
  result. The code does not: with the header \<open>(INT k = 5)\<close> the inferred dictionary is
  \<open>{k: 5}\<close>, and \<open>runAlgorithm\<close> prints it and returns \<open>None\<close>; the only events are the fetch of
  the source and the print, and \<open>conn.runInstalledQuery\<close> is never called.
\<close>

theorem runAlgorithm_defaults_not_run:
  "runAlgorithm (example_env (same_page header_k)) ''tg_pagerank'' None ''VERTEX'' None None 2147480 None fresh
     = (Inr None,
        fresh\<lparr>params_dict := [(''tg_pagerank'', [(''k'', PInt 5)])],
              out := [HttpGet pagerank_url, PrintParams ''Default parameters are:'' [(''k'', PInt 5)]]\<rparr>)"
  by code_simp

text \<open>
  Claim C5. With the catalog of a new featurizer: when \<open>_get_Params\<close> returns a dictionary
  that is not empty and has a parameter without default (value \<open>None\<close>), \<open>runAlgorithm\<close>
  called without parameters raises the ValueError whose message contains the location that
  \<open>_get_query_url\<close> returns for the query. Up to the raise it has only printed the defaults
  after \<open>_get_Params\<close>: no remote execution has been added to the events and the world is
  the one before the call.
\<close>

theorem runAlgorithm_missing_default:
  assumes "algo_dict s = initial_algo_dict"
      and "get_Params E query_name s = (Inr ps, s1)"
      and "ps \<noteq> []"
      and "PNone \<in> set (map snd ps)"
  shows "\<exists>loc. get_query_url query_name s = (Inr loc, s)
           \<and> runAlgorithm E query_name None schema_type feat_name schema_name timeout sizeLimit s =
               (Inl (ValueError (''Query parameters which are not initialized by default need to be initialized, visit ''
                                 @ loc @ ''.'')),
                emit [PrintParams ''Default parameters are:'' ps] s1)
           \<and> filter is_run (out (emit [PrintParams ''Default parameters are:'' ps] s1)) = filter is_run (out s)
           \<and> world s1 = world s"
proof -
  let ?ms = "matching query_name (algo_dict s)"
  let ?page = "requests_get E (last ?ms) (world s)"
  have ok: "?ms \<noteq> [] \<and> ?page \<noteq> []"
    using assms(2) by (auto simp: get_Params_eq list_and_raise_eq split: if_splits)
  have "s1 = snd (get_Params E query_name s)"
    using assms(2) by simp
  then have s1: "s1 = (emit (map HttpGet ?ms
                   @ (if snd (parse_params E ?page) then []
                      else [Print ''The algorithm does not have any input parameter.'']))
               s)\<lparr>params_dict := dict_set (params_dict s) query_name (fst (parse_params E ?page))\<rparr>"
    using ok by (simp add: get_Params_eq)
  have "hd ?ms \<in> set ?ms" using ok by simp
  then have "hd ?ms \<in> set (get_values initial_algo_dict)"
    using assms(1) by (simp add: matching_def)
  then obtain loc where loc: "blob_url (hd ?ms) = Inr loc"
    using initial_blob_Inr by blast
  have url: "get_query_url query_name s' = (Inr loc, s')" if "algo_dict s' = algo_dict s" for s' :: "('a, 'b) state"
    using that ok loc by (simp add: get_query_url_eq)
  have d: "algo_dict (emit [PrintParams ''Default parameters are:'' ps] s1) = algo_dict s"
    by (simp add: s1 emit_def)
  have run: "runAlgorithm E query_name None schema_type feat_name schema_name timeout sizeLimit s =
               (Inl (ValueError (''Query parameters which are not initialized by default need to be initialized, visit ''
                                 @ loc @ ''.'')),
                emit [PrintParams ''Default parameters are:'' ps] s1)"
    using assms(2,3,4) url [OF d] by (simp add: runAlgorithm_def raise_with_url_def)
  have quiet: "filter is_run (out (emit [PrintParams ''Default parameters are:'' ps] s1)) = filter is_run (out s)"
    by (simp add: s1 emit_def filter_is_run_HttpGet)
  have w: "world s1 = world s"
    by (simp add: s1 emit_def)
  show ?thesis using url [of s] run quiet w by blast
qed

theorem runAlgorithm_missing_default_witness:
  "algo_dict fresh = initial_algo_dict
   \<and> get_Params (example_env (same_page header_v_type)) ''tg_pagerank'' fresh
       = (Inr [(''v_type'', PNone)],
          snd (get_Params (example_env (same_page header_v_type)) ''tg_pagerank'' fresh))
   \<and> [(''v_type'', PNone)] \<noteq> ([] :: unit params)
   \<and> PNone \<in> set (map snd [(''v_type'', PNone :: unit pyval)])
   \<and> (\<exists>loc. get_query_url ''tg_pagerank'' fresh = (Inr loc, fresh)
           \<and> runAlgorithm (example_env (same_page header_v_type)) ''tg_pagerank'' None ''VERTEX'' None None
                 2147480 None fresh =
               (Inl (ValueError (''Query parameters which are not initialized by default need to be initialized, visit ''
                                 @ loc @ ''.'')),
                emit [PrintParams ''Default parameters are:'' [(''v_type'', PNone)]]
                  (snd (get_Params (example_env (same_page header_v_type)) ''tg_pagerank'' fresh)))
           \<and> filter is_run (out (emit [PrintParams ''Default parameters are:'' [(''v_type'', PNone)]]
                  (snd (get_Params (example_env (same_page header_v_type)) ''tg_pagerank'' fresh))))
               = filter is_run (out fresh)
           \<and> world (snd (get_Params (example_env (same_page header_v_type)) ''tg_pagerank'' fresh))
               = world fresh)"
proof -
  have h1: "algo_dict fresh = initial_algo_dict"
    by code_simp
  have h2: "get_Params (example_env (same_page header_v_type)) ''tg_pagerank'' fresh
       = (Inr [(''v_type'', PNone)],
          snd (get_Params (example_env (same_page header_v_type)) ''tg_pagerank'' fresh))"
    by code_simp
  have h3: "[(''v_type'', PNone)] \<noteq> ([] :: unit params)"
    by simp
  have h4: "PNone \<in> set (map snd [(''v_type'', PNone :: unit pyval)])"
    by simp
  note c = runAlgorithm_missing_default [OF h1 h2 h3 h4, where schema_type = "''VERTEX''"
      and feat_name = None and schema_name = None and timeout = 2147480 and sizeLimit = None]
  show ?thesis
    by (rule conjI [OF h1 conjI [OF h2 conjI [OF h3 conjI [OF h4 c]]]])
qed

section \<open>The installer is idempotent\<close>

text \<open>
  Claim C2. Two calls of \<open>_install_query_file\<close> in sequence, with the same name and the same
  replacements: the first starts with the query not in the listing of installed queries and
  succeeds, and afterwards the server lists the query under the name with the suffix put in
  (and stripped of blanks, as \<open>_is_query_installed\<close> is asked). Then the second call returns
  the same name at once: its only event is the request of the listing, it fetches nothing
  and sends no command, so that the two calls together have sent exactly one command.
\<close>

theorem install_twice_one_round_trip:
  assumes "listing_entry E (py_strip (suffixed_name query_name replace))
             \<notin> set (getInstalledQueries E (world s))"
      and "install_query_file E query_name replace s = (Inr n', s1)"
      and "listing_entry E (py_strip (suffixed_name query_name replace))
             \<in> set (getInstalledQueries E (world s1))"
  shows "install_query_file E query_name replace s1 = (Inr n', emit [GetInstalledQueries] s1)
       \<and> n' = suffixed_name query_name replace
       \<and> length (filter is_gsql (out (snd (install_query_file E query_name replace s1))))
           = length (filter is_gsql (out s)) + 1
       \<and> filter is_fetch (out (snd (install_query_file E query_name replace s1)))
           = filter is_fetch (out s1)"
proof -
  have first: "n' = suffixed_name query_name replace"
      "length (filter is_gsql (out s1)) = length (filter is_gsql (out s)) + 1"
    using install_first [OF assms(1,2)] by simp_all
  have second: "install_query_file E query_name replace s1 = (Inr n', emit [GetInstalledQueries] s1)"
    using install_short_circuit [OF assms(3)] first(1) by simp
  show ?thesis
    using first by (simp add: second emit_def)
qed

theorem install_twice_one_round_trip_witness:
  "listing_entry (example_env (same_page header_k)) (py_strip (suffixed_name ''tg_pagerank'' None))
       \<notin> set (getInstalledQueries (example_env (same_page header_k)) (world fresh))
   \<and> install_query_file (example_env (same_page header_k)) ''tg_pagerank'' None fresh
       = (Inr ''tg_pagerank'',
          snd (install_query_file (example_env (same_page header_k)) ''tg_pagerank'' None fresh))
   \<and> listing_entry (example_env (same_page header_k)) (py_strip (suffixed_name ''tg_pagerank'' None))
       \<in> set (getInstalledQueries (example_env (same_page header_k))
               (world (snd (install_query_file (example_env (same_page header_k)) ''tg_pagerank'' None fresh))))
   \<and> (install_query_file (example_env (same_page header_k)) ''tg_pagerank'' None
         (snd (install_query_file (example_env (same_page header_k)) ''tg_pagerank'' None fresh))
       = (Inr ''tg_pagerank'',
          emit [GetInstalledQueries]
            (snd (install_query_file (example_env (same_page header_k)) ''tg_pagerank'' None fresh)))
     \<and> ''tg_pagerank'' = suffixed_name ''tg_pagerank'' None
     \<and> length (filter is_gsql (out (snd (install_query_file (example_env (same_page header_k)) ''tg_pagerank'' None
         (snd (install_query_file (example_env (same_page header_k)) ''tg_pagerank'' None fresh))))))
         = length (filter is_gsql (out fresh)) + 1
     \<and> filter is_fetch (out (snd (install_query_file (example_env (same_page header_k)) ''tg_pagerank'' None
         (snd (install_query_file (example_env (same_page header_k)) ''tg_pagerank'' None fresh)))))
         = filter is_fetch (out (snd (install_query_file (example_env (same_page header_k)) ''tg_pagerank'' None fresh))))"
proof -
  have h1: "listing_entry (example_env (same_page header_k)) (py_strip (suffixed_name ''tg_pagerank'' None))
       \<notin> set (getInstalledQueries (example_env (same_page header_k)) (world fresh))"
    by code_simp
  have h2: "install_query_file (example_env (same_page header_k)) ''tg_pagerank'' None fresh
       = (Inr ''tg_pagerank'',
          snd (install_query_file (example_env (same_page header_k)) ''tg_pagerank'' None fresh))"
    by code_simp
  have h3: "listing_entry (example_env (same_page header_k)) (py_strip (suffixed_name ''tg_pagerank'' None))
       \<in> set (getInstalledQueries (example_env (same_page header_k))
               (world (snd (install_query_file (example_env (same_page header_k)) ''tg_pagerank'' None fresh))))"
    by code_simp
  note c = install_twice_one_round_trip [OF h1 h2 h3]
  show ?thesis
    by (rule conjI [OF h1 conjI [OF h2 conjI [OF h3 c]]])
qed

section \<open>The catalog and the result types\<close>

text \<open>
  The claim C3 says that, for every leaf name of the catalog, \<open>_get_query\<close> returns a text
  that is not empty and the name is a key of the table of result types. Neither holds for
  every name: \<open>tg_maximal_indep_set\<close> is a leaf name of the catalog of a new featurizer and
  has no entry in \<open>queryResult_type_dict\<close>; and for the leaf name \<open>tg_pagerank\<close>, when the
  page at its location is empty, \<open>_get_query\<close> returns no text but raises the error of a name
  that is not in the list.
\<close>

theorem catalog_leaf_without_type_counterexample:
  "''tg_maximal_indep_set'' \<in> set (map leaf_name (get_values initial_algo_dict))
   \<and> map_of initial_queryResult_type_dict ''tg_maximal_indep_set'' = None
   \<and> ''tg_pagerank'' \<in> set (map leaf_name (get_values initial_algo_dict))
   \<and> fst (get_query (example_env (same_page [])) ''tg_pagerank'' fresh)
       = Inl (ValueError ''The query name is not included in the list of queries.'')"
proof -
  have a: "''tg_maximal_indep_set'' \<in> set (map leaf_name (get_values initial_algo_dict))"
    by (simp add: initial_names)
  have b: "map_of initial_queryResult_type_dict ''tg_maximal_indep_set'' = None"
    by (simp add: initial_queryResult_type_dict_def)
  have c: "''tg_pagerank'' \<in> set (map leaf_name (get_values initial_algo_dict))"
    by (simp add: initial_names)
  have d: "fst (get_query (example_env (same_page [])) ''tg_pagerank'' fresh)
       = Inl (ValueError ''The query name is not included in the list of queries.'')"
    by code_simp
  show ?thesis
    by (rule conjI [OF a conjI [OF b conjI [OF c d]]])
qed

text \<open>
  Claim C3, as amended. For every URL of the catalog of a new featurizer, \<open>_get_query\<close> called
  with the leaf name of that URL fetches that one page. If the page is not empty it returns
  exactly that text; if the page is empty it prints the listing of the catalog and raises
  the error of a name that is not in the list. So a text it returns is never empty. It
  returns no type. The declared result types are those of \<open>queryResult_type_dict\<close>: the table
  has 17 distinct keys, every key is a leaf name of the catalog, and every type is one of
  \<open>Float\<close>, \<open>INT\<close> and \<open>List<Double>\<close>. The leaf names of the catalog that are not keys of
  the table are exactly the seven names \<open>tg_maximal_indep_set\<close>, \<open>tg_tri_count_fast\<close>,
  \<open>tg_cycle_detection_count\<close>, \<open>tg_common_neighbors\<close>, \<open>tg_preferential_attachment\<close>,
  \<open>tg_same_community\<close> and \<open>tg_total_neighbors\<close>; so the leaf name of the URL either has one
  of the three types or is one of these seven.
\<close>

theorem resolve_catalog_entry:
  assumes "algo_dict s = initial_algo_dict"
      and "u \<in> set (get_values initial_algo_dict)"
  shows "get_query E (leaf_name u) s =
           (if requests_get E u (world s) = []
            then (Inl (ValueError ''The query name is not included in the list of queries.''),
                  emit (HttpGet u # map Print (listing_header # fst (print_items 0 initial_algo_dict))) s)
            else (Inr (requests_get E u (world s)), emit [HttpGet u] s))
       \<and> fst (get_query E (leaf_name u) s) \<noteq> Inr []
       \<and> (case map_of initial_queryResult_type_dict (leaf_name u) of
             None \<Rightarrow> leaf_name u \<in> set [''tg_maximal_indep_set'', ''tg_tri_count_fast'',
                        ''tg_cycle_detection_count'', ''tg_common_neighbors'',
                        ''tg_preferential_attachment'', ''tg_same_community'', ''tg_total_neighbors'']
           | Some t \<Rightarrow> t = ''Float'' \<or> t = ''INT'' \<or> t = ''List<Double>'')
       \<and> length initial_queryResult_type_dict = 17
       \<and> distinct (map fst initial_queryResult_type_dict)
       \<and> list_all (\<lambda>(n, t). n \<in> set (map leaf_name (get_values initial_algo_dict))
              \<and> (t = ''Float'' \<or> t = ''INT'' \<or> t = ''List<Double>'')) initial_queryResult_type_dict
       \<and> filter (\<lambda>n. map_of initial_queryResult_type_dict n = None)
            (map leaf_name (get_values initial_algo_dict))
           = [''tg_maximal_indep_set'', ''tg_tri_count_fast'', ''tg_cycle_detection_count'',
              ''tg_common_neighbors'', ''tg_preferential_attachment'', ''tg_same_community'',
              ''tg_total_neighbors'']"
proof -
  let ?page = "requests_get E u (world s)"
  let ?seven = "[''tg_maximal_indep_set'', ''tg_tri_count_fast'', ''tg_cycle_detection_count'',
              ''tg_common_neighbors'', ''tg_preferential_attachment'', ''tg_same_community'',
              ''tg_total_neighbors'']"
  have m: "matching (leaf_name u) (algo_dict s) = [u]"
    using assms by (simp add: initial_matching)
  have d: "algo_dict (emit [HttpGet u] s) = initial_algo_dict"
    using assms(1) by (simp add: emit_fields)
  have a: "get_query E (leaf_name u) s =
           (if ?page = []
            then (Inl (ValueError ''The query name is not included in the list of queries.''),
                  emit (HttpGet u # map Print (listing_header # fst (print_items 0 initial_algo_dict))) s)
            else (Inr ?page, emit [HttpGet u] s))"
    by (simp add: get_query_eq m list_and_raise_initial [OF d] emit_emit not_included_def)
  have a': "fst (get_query E (leaf_name u) s) \<noteq> Inr []"
    by (simp add: a)
  have seven: "filter (\<lambda>n. map_of initial_queryResult_type_dict n = None)
            (map leaf_name (get_values initial_algo_dict)) = ?seven"
    by (simp add: initial_names initial_queryResult_type_dict_def)
  have n: "length initial_queryResult_type_dict = 17"
    by (simp add: initial_queryResult_type_dict_def)
  have k: "distinct (map fst initial_queryResult_type_dict)"
    by (simp add: initial_queryResult_type_dict_def)
  have b: "(case map_of initial_queryResult_type_dict (leaf_name u) of
             None \<Rightarrow> leaf_name u \<in> set ?seven
           | Some t \<Rightarrow> t = ''Float'' \<or> t = ''INT'' \<or> t = ''List<Double>'')"
  proof (cases "map_of initial_queryResult_type_dict (leaf_name u)")
    case None
    have "leaf_name u \<in> set (map leaf_name (get_values initial_algo_dict))"
      using assms(2) by simp
    then have "leaf_name u \<in> set (filter (\<lambda>n. map_of initial_queryResult_type_dict n = None)
            (map leaf_name (get_values initial_algo_dict)))"
      using None by simp
    then have "leaf_name u \<in> set ?seven"
      by (simp only: seven)
    then show ?thesis using None by simp
  next
    case (Some t)
    then have "(leaf_name u, t) \<in> set initial_queryResult_type_dict"
      by (rule map_of_SomeD)
    then have "t = ''Float'' \<or> t = ''INT'' \<or> t = ''List<Double>''"
      using initial_types by (auto simp: list_all_iff)
    then show ?thesis using Some by simp
  qed
  show ?thesis
    by (rule conjI [OF a conjI [OF a' conjI [OF b conjI [OF n conjI [OF k
          conjI [OF initial_types seven]]]]]])
qed

theorem resolve_catalog_entry_witness:
  "algo_dict fresh = initial_algo_dict
   \<and> pagerank_url \<in> set (get_values initial_algo_dict)
   \<and> requests_get (example_env (same_page header_k)) pagerank_url (world fresh) = header_k
   \<and> map_of initial_queryResult_type_dict (leaf_name pagerank_url) = Some ''Float''
   \<and> (get_query (example_env (same_page header_k)) (leaf_name pagerank_url) fresh =
           (if requests_get (example_env (same_page header_k)) pagerank_url (world fresh) = []
            then (Inl (ValueError ''The query name is not included in the list of queries.''),
                  emit (HttpGet pagerank_url
                        # map Print (listing_header # fst (print_items 0 initial_algo_dict))) fresh)
            else (Inr (requests_get (example_env (same_page header_k)) pagerank_url (world fresh)),
                  emit [HttpGet pagerank_url] fresh))
       \<and> fst (get_query (example_env (same_page header_k)) (leaf_name pagerank_url) fresh) \<noteq> Inr []
       \<and> (case map_of initial_queryResult_type_dict (leaf_name pagerank_url) of
             None \<Rightarrow> leaf_name pagerank_url \<in> set [''tg_maximal_indep_set'', ''tg_tri_count_fast'',
                        ''tg_cycle_detection_count'', ''tg_common_neighbors'',
                        ''tg_preferential_attachment'', ''tg_same_community'', ''tg_total_neighbors'']
           | Some t \<Rightarrow> t = ''Float'' \<or> t = ''INT'' \<or> t = ''List<Double>'')
       \<and> length initial_queryResult_type_dict = 17
       \<and> distinct (map fst initial_queryResult_type_dict)
       \<and> list_all (\<lambda>(n, t). n \<in> set (map leaf_name (get_values initial_algo_dict))
              \<and> (t = ''Float'' \<or> t = ''INT'' \<or> t = ''List<Double>'')) initial_queryResult_type_dict
       \<and> filter (\<lambda>n. map_of initial_queryResult_type_dict n = None)
            (map leaf_name (get_values initial_algo_dict))
           = [''tg_maximal_indep_set'', ''tg_tri_count_fast'', ''tg_cycle_detection_count'',
              ''tg_common_neighbors'', ''tg_preferential_attachment'', ''tg_same_community'',
              ''tg_total_neighbors''])"
proof -
  have h1: "algo_dict fresh = initial_algo_dict"
    by code_simp
  have h2: "pagerank_url \<in> set (get_values initial_algo_dict)"
    by code_simp
  have p: "requests_get (example_env (same_page header_k)) pagerank_url (world fresh) = header_k"
    by code_simp
  have t: "map_of initial_queryResult_type_dict (leaf_name pagerank_url) = Some ''Float''"
    by code_simp
  note c = resolve_catalog_entry [OF h1 h2, of "example_env (same_page header_k)"]
  show ?thesis
    by (rule conjI [OF h1 conjI [OF h2 conjI [OF p conjI [OF t c]]]])
qed

section \<open>Two leaves of the same name\<close>

text \<open>
  The claim C8 says that, when two categories have a leaf of the same name, \<open>_get_query\<close>
  takes the one visited last and \<open>_get_query_url\<close> selects the same entry. The second part
  fails: in the catalog \<open>twice_dict\<close>, \<open>_get_query\<close> returns the page of the second URL, and
  \<open>_get_query_url\<close> returns the location made from the first URL, which is not the location
  of the second.
\<close>

theorem duplicate_leaf_counterexample:
  "fst (get_query (example_env page_of) ''tg_x'' twice_state) = Inr (page_of url_B)
   \<and> fst (get_query_url ''tg_x'' twice_state) = blob_url url_A
   \<and> blob_url url_A \<noteq> blob_url url_B"
  by code_simp

text \<open>
  Claim C8, as amended. For every catalog and every name that is the leaf name of at least
  one URL of the catalog, the page of the last such URL being not empty: \<open>_get_query\<close>
  fetches every such URL in the order of the traversal and returns the page of the last
  one, and \<open>_get_query_url\<close> returns the location made from the first one. The two select the
  same entry when exactly one URL has that leaf name.
\<close>

theorem resolve_last_reference_first:
  assumes "matching query_name (algo_dict s) \<noteq> []"
      and "requests_get E (last (matching query_name (algo_dict s))) (world s) \<noteq> []"
  shows "get_query E query_name s =
           (Inr (requests_get E (last (matching query_name (algo_dict s))) (world s)),
            emit (map HttpGet (matching query_name (algo_dict s))) s)
       \<and> get_query_url query_name s = (blob_url (hd (matching query_name (algo_dict s))), s)
       \<and> (length (matching query_name (algo_dict s)) = 1
            \<longrightarrow> hd (matching query_name (algo_dict s)) = last (matching query_name (algo_dict s)))"
proof -
  have "hd xs = last xs" if "length xs = 1" for xs :: "string list"
    using that by (cases xs) auto
  then show ?thesis using assms by (simp add: get_query_eq get_query_url_eq)
qed

theorem resolve_last_reference_first_witness:
  "matching ''tg_pagerank'' (algo_dict fresh) \<noteq> []
   \<and> requests_get (example_env (same_page header_k)) (last (matching ''tg_pagerank'' (algo_dict fresh)))
       (world fresh) \<noteq> []
   \<and> length (matching ''tg_pagerank'' (algo_dict fresh)) = 1
   \<and> (get_query (example_env (same_page header_k)) ''tg_pagerank'' fresh =
           (Inr (requests_get (example_env (same_page header_k))
                   (last (matching ''tg_pagerank'' (algo_dict fresh))) (world fresh)),
            emit (map HttpGet (matching ''tg_pagerank'' (algo_dict fresh))) fresh)
       \<and> get_query_url ''tg_pagerank'' fresh = (blob_url (hd (matching ''tg_pagerank'' (algo_dict fresh))), fresh)
       \<and> hd (matching ''tg_pagerank'' (algo_dict fresh)) = last (matching ''tg_pagerank'' (algo_dict fresh)))"
proof -
  have h1: "matching ''tg_pagerank'' (algo_dict fresh) \<noteq> []"
    by code_simp
  have h2: "requests_get (example_env (same_page header_k)) (last (matching ''tg_pagerank'' (algo_dict fresh)))
       (world fresh) \<noteq> []"
    by code_simp
  have l: "length (matching ''tg_pagerank'' (algo_dict fresh)) = 1"
    by code_simp
  note c = resolve_last_reference_first [OF h1 h2]
  show ?thesis
    by (rule conjI [OF h1 conjI [OF h2 conjI [OF l
          conjI [OF c [THEN conjunct1] conjI [OF c [THEN conjunct2, THEN conjunct1]
            c [THEN conjunct2, THEN conjunct2, THEN mp, OF l]]]]]])
qed

section \<open>The default parameters and their cache\<close>

text \<open>
  Claim C4. The claim says that the header \<open>(INT k = 5, STRING label = "x")\<close> gives the
  defaults \<open>{k: 5, label: "x"}\<close>. The code gives \<open>{k: 5, label: ""}\<close>: the literal \<open>"x"\<close>, quotes
  included, is cut by the slice \<open>[1:-2]\<close>, which drops one character in front and two at the
  end, so the last character of the text goes with the closing quote.
\<close>

theorem get_Params_string_default:
  "fst (get_Params (example_env (same_page header_k_label)) ''tg_pagerank'' fresh)
     = Inr [(''k'', PInt 5), (''label'', PStr [])]"
  by code_simp

text \<open>
  The claim C9 says that a later call of \<open>_get_Params\<close> for the same name uses the cached
  dictionary instead of fetching the source again. It does not: after a first call has
  stored the defaults of \<open>tg_pagerank\<close> in \<open>params_dict\<close>, a second call fetches the source
  again.
\<close>

theorem params_cache_counterexample:
  "map_of (params_dict (snd (get_Params (example_env (same_page header_k)) ''tg_pagerank'' fresh)))
      ''tg_pagerank'' = Some [(''k'', PInt 5)]
   \<and> out (snd (get_Params (example_env (same_page header_k)) ''tg_pagerank''
              (snd (get_Params (example_env (same_page header_k)) ''tg_pagerank'' fresh))))
     = out (snd (get_Params (example_env (same_page header_k)) ''tg_pagerank'' fresh))
       @ [HttpGet pagerank_url]"
  by code_simp

text \<open>
  Claim C9, as amended. After \<open>_get_Params\<close> has returned the dictionary \<open>m\<close> for a name,
  \<open>params_dict\<close> maps the name to \<open>m\<close>. The cache is written and never read: a later call for
  the same name returns \<open>m\<close> again (the world being the same) after fetching again every URL
  of the catalog with that leaf name, of which there is at least one, and the result of a
  call does not depend on what \<open>params_dict\<close> holds.
\<close>

theorem get_Params_cache_not_read:
  assumes "get_Params E query_name s = (Inr m, s')"
  shows "map_of (params_dict s') query_name = Some m
       \<and> fst (get_Params E query_name s') = Inr m
       \<and> matching query_name (algo_dict s) \<noteq> []
       \<and> filter is_fetch (out (snd (get_Params E query_name s')))
           = filter is_fetch (out s') @ map HttpGet (matching query_name (algo_dict s))
       \<and> (\<forall>c. fst (get_Params E query_name (s\<lparr>params_dict := c\<rparr>)) = Inr m)"
proof -
  let ?ms = "matching query_name (algo_dict s)"
  let ?page = "requests_get E (last ?ms) (world s)"
  have ok: "?ms \<noteq> [] \<and> ?page \<noteq> []"
    using assms by (auto simp: get_Params_eq list_and_raise_eq split: if_splits)
  have m: "m = fst (parse_params E ?page)"
    using assms ok by (simp add: get_Params_eq)
  have "s' = snd (get_Params E query_name s)"
    using assms by simp
  then have s': "s' = (emit (map HttpGet ?ms
                   @ (if snd (parse_params E ?page) then []
                      else [Print ''The algorithm does not have any input parameter.'']))
               s)\<lparr>params_dict := dict_set (params_dict s) query_name m\<rparr>"
    using ok by (simp add: get_Params_eq m)
  have same: "algo_dict s' = algo_dict s" "world s' = world s"
    by (simp_all add: s' emit_def)
  have a: "map_of (params_dict s') query_name = Some m"
    by (simp add: s' map_of_dict_set)
  have b: "fst (get_Params E query_name s') = Inr m"
    using ok by (simp add: get_Params_eq same m)
  have c: "filter is_fetch (out (snd (get_Params E query_name s')))
           = filter is_fetch (out s') @ map HttpGet ?ms"
    using ok by (simp add: get_Params_eq same emit_def filter_is_fetch_HttpGet)
  have d: "fst (get_Params E query_name (s\<lparr>params_dict := c\<rparr>)) = Inr m" for c
    using ok by (simp add: get_Params_eq m)
  show ?thesis using a b c d ok by blast
qed

theorem get_Params_cache_not_read_witness:
  "get_Params (example_env (same_page header_k)) ''tg_pagerank'' fresh
       = (Inr [(''k'', PInt 5)], snd (get_Params (example_env (same_page header_k)) ''tg_pagerank'' fresh))
   \<and> (map_of (params_dict (snd (get_Params (example_env (same_page header_k)) ''tg_pagerank'' fresh)))
          ''tg_pagerank'' = Some [(''k'', PInt 5)]
       \<and> fst (get_Params (example_env (same_page header_k)) ''tg_pagerank''
                (snd (get_Params (example_env (same_page header_k)) ''tg_pagerank'' fresh)))
           = Inr [(''k'', PInt 5)]
       \<and> matching ''tg_pagerank'' (algo_dict fresh) \<noteq> []
       \<and> filter is_fetch (out (snd (get_Params (example_env (same_page header_k)) ''tg_pagerank''
                (snd (get_Params (example_env (same_page header_k)) ''tg_pagerank'' fresh)))))
           = filter is_fetch (out (snd (get_Params (example_env (same_page header_k)) ''tg_pagerank'' fresh)))
             @ map HttpGet (matching ''tg_pagerank'' (algo_dict fresh))
       \<and> fst (get_Params (example_env (same_page header_k)) ''tg_pagerank''
                (fresh\<lparr>params_dict := [(''tg_pagerank'', [(''old'', PInt 1)])]\<rparr>)) = Inr [(''k'', PInt 5)])"
proof -
  have h: "get_Params (example_env (same_page header_k)) ''tg_pagerank'' fresh
       = (Inr [(''k'', PInt 5)], snd (get_Params (example_env (same_page header_k)) ''tg_pagerank'' fresh))"
    by code_simp
  note c = get_Params_cache_not_read [OF h]
  note rest = c [THEN conjunct2, THEN conjunct2]
  show ?thesis
    by (rule conjI [OF h conjI [OF c [THEN conjunct1] conjI [OF c [THEN conjunct2, THEN conjunct1]
          conjI [OF rest [THEN conjunct1] conjI [OF rest [THEN conjunct2, THEN conjunct1]
            rest [THEN conjunct2, THEN conjunct2, THEN spec]]]]]])
qed

section \<open>Adding an attribute\<close>

text \<open>
  What holds of the list of targets that the loop of \<open>_add_attribute\<close> works on, whichever it
  is: for a schema type that is \<open>VERTEX\<close> or \<open>EDGE\<close> in any letter case, if every element of
  that list has a readable attribute list that contains the attribute name, \<open>_add_attribute\<close>
  returns \<open>Attribute already exists\<close>. Its only events are the request of the type names and
  one request of metadata per element: no command is sent to the server and the world is
  unchanged. Without \<open>schema_name\<close> the elements are the type names of the schema.
\<close>

theorem add_attribute_already_present:
  assumes "py_upper schema_type = ''VERTEX'' \<or> py_upper schema_type = ''EDGE''"
      and "list_all (has_attribute E (py_upper schema_type = ''VERTEX'') (world s) a)
             (targets (if py_upper schema_type = ''VERTEX'' then getVertexTypes E (world s)
                       else getEdgeTypes E (world s)) schema_name)"
  shows "add_attribute E schema_type attr_type (Some a) schema_name s =
           (Inr ''Attribute already exists'',
            emit ((if py_upper schema_type = ''VERTEX'' then GetVertexTypes else GetEdgeTypes)
                  # map (if py_upper schema_type = ''VERTEX'' then GetVertexType else GetEdgeType)
                      (targets (if py_upper schema_type = ''VERTEX'' then getVertexTypes E (world s)
                                else getEdgeTypes E (world s)) schema_name))
              (s\<lparr>result_attr := Some a\<rparr>))
       \<and> filter is_gsql (out (snd (add_attribute E schema_type attr_type (Some a) schema_name s)))
           = filter is_gsql (out s)
       \<and> world (snd (add_attribute E schema_type attr_type (Some a) schema_name s)) = world s"
proof -
  let ?v = "py_upper schema_type = ''VERTEX''"
  let ?ts = "targets (if ?v then getVertexTypes E (world s) else getEdgeTypes E (world s)) schema_name"
  let ?s1 = "emit [if ?v then GetVertexTypes else GetEdgeTypes] (s\<lparr>result_attr := Some a\<rparr>)"
  have "list_all (has_attribute E ?v (world ?s1) a) ?ts"
    using assms(2) by (simp add: emit_def)
  then have loop: "add_attribute_loop E ?v schema_type attr_type (Some a) ?ts [] ?s1 =
           (Inr [], emit (map (if ?v then GetVertexType else GetEdgeType) ?ts) ?s1)"
    by (rule add_attribute_loop_present)
  have eq: "add_attribute E schema_type attr_type (Some a) schema_name s =
           (Inr ''Attribute already exists'',
            emit ((if ?v then GetVertexTypes else GetEdgeTypes)
                  # map (if ?v then GetVertexType else GetEdgeType) ?ts)
              (s\<lparr>result_attr := Some a\<rparr>))"
    using assms(1) loop by (auto simp: add_attribute_def Let_def emit_emit)
  have g: "filter is_gsql (map (if ?v then GetVertexType else GetEdgeType) ?ts) = []"
    by (induction ?ts) auto
  show ?thesis
    using g by (auto simp: eq emit_def)
qed

theorem add_attribute_already_present_witness:
  "(py_upper ''vertex'' = ''VERTEX'' \<or> py_upper ''vertex'' = ''EDGE'')
   \<and> list_all (has_attribute (example_env (same_page [])) (py_upper ''vertex'' = ''VERTEX'') (world fresh) ''age'')
             (targets (if py_upper ''vertex'' = ''VERTEX'' then getVertexTypes (example_env (same_page [])) (world fresh)
                       else getEdgeTypes (example_env (same_page [])) (world fresh)) None)
   \<and> (add_attribute (example_env (same_page [])) ''vertex'' ''INT'' (Some ''age'') None fresh =
           (Inr ''Attribute already exists'',
            emit ((if py_upper ''vertex'' = ''VERTEX'' then GetVertexTypes else GetEdgeTypes)
                  # map (if py_upper ''vertex'' = ''VERTEX'' then GetVertexType else GetEdgeType)
                      (targets (if py_upper ''vertex'' = ''VERTEX'' then getVertexTypes (example_env (same_page [])) (world fresh)
                                else getEdgeTypes (example_env (same_page [])) (world fresh)) None))
              (fresh\<lparr>result_attr := Some ''age''\<rparr>))
       \<and> filter is_gsql (out (snd (add_attribute (example_env (same_page [])) ''vertex'' ''INT'' (Some ''age'') None fresh)))
           = filter is_gsql (out fresh)
       \<and> world (snd (add_attribute (example_env (same_page [])) ''vertex'' ''INT'' (Some ''age'') None fresh))
           = world fresh)"
proof -
  have h1: "py_upper ''vertex'' = ''VERTEX'' \<or> py_upper ''vertex'' = ''EDGE''"
    by code_simp
  have h2: "list_all (has_attribute (example_env (same_page [])) (py_upper ''vertex'' = ''VERTEX'') (world fresh) ''age'')
             (targets (if py_upper ''vertex'' = ''VERTEX'' then getVertexTypes (example_env (same_page [])) (world fresh)
                       else getEdgeTypes (example_env (same_page [])) (world fresh)) None)"
    by code_simp
  note c = add_attribute_already_present [OF h1 h2, where attr_type = "''INT''"]
  show ?thesis
    by (rule conjI [OF h1 conjI [OF h2 c]])
qed

text \<open>
  Claim C6. The claim says that, for every set of target types, \<open>_add_attribute\<close> reports
  that there is nothing to do when every target type has the attribute. For the types of
  the schema (no \<open>schema_name\<close>) it does. For a set given by the caller it does not: the
  vertex type \<open>Person\<close> has the attribute \<open>age\<close>, and with the list of the one name \<open>Person\<close>
  as \<open>schema_name\<close> the code asks for the metadata of the list instead of that of \<open>Person\<close>
  and ends in the KeyError of a type without attributes, where without \<open>schema_name\<close> it
  returns \<open>Attribute already exists\<close>. The cause is the one of claim C7, the \<open>append\<close> of the
  list to the emptied list of targets.
\<close>

theorem add_attribute_subset_not_reported:
  "has_attribute (example_env (same_page [])) True (world fresh) ''age'' (Name ''Person'')
   \<and> add_attribute (example_env (same_page [])) ''VERTEX'' ''INT'' (Some ''age'') (Some [''Person'']) fresh
       = (Inl (KeyError ''Attributes''),
          fresh\<lparr>result_attr := Some ''age'',
                out := [GetVertexTypes, GetVertexType (Names [''Person''])]\<rparr>)
   \<and> fst (add_attribute (example_env (same_page [])) ''VERTEX'' ''INT'' (Some ''age'') None fresh)
       = Inr ''Attribute already exists''"
  by code_simp

text \<open>
  Claim C7. The claim says that a list of type names given by the caller is enumerated name
  by name. The code appends the list itself to the emptied list of targets, which then has
  one element, the list. With the names \<open>Person\<close> and \<open>Movie\<close>, \<open>_add_attribute\<close> asks the
  connection once, for the metadata of the list as a whole, and never for \<open>Person\<close> or for
  \<open>Movie\<close>; the example server knows no such type and the lookup of its attributes fails.
\<close>

theorem add_attribute_list_as_one_target:
  "targets [''Person''] (Some [''Person'', ''Movie'']) = [Names [''Person'', ''Movie'']]
   \<and> out (snd (add_attribute (example_env (same_page [])) ''VERTEX'' ''INT'' (Some ''score'')
               (Some [''Person'', ''Movie'']) fresh))
     = [GetVertexTypes, GetVertexType (Names [''Person'', ''Movie''])]
   \<and> fst (add_attribute (example_env (same_page [])) ''VERTEX'' ''INT'' (Some ''score'')
               (Some [''Person'', ''Movie'']) fresh) = Inl (KeyError ''Attributes'')"
  by code_simp

end
